theory Spec2Isabelle
  imports Complex_Main "HOL-Library.Multiset"
begin

section \<open>JavaScript numbers\<close>

text \<open>
  A JavaScript \<open>number\<close> is an IEEE binary64 value. The model keeps the three kinds of
  value the claims tell apart: a finite number, \<open>NaN\<close>, and the two infinities. A finite
  number is carried as its exact rational value; rounding to 53 bits, overflow and the
  sign of zero are outside the model.
\<close>

datatype number = Fin rat | NaN | PosInfinity | NegInfinity

fun isFinite :: "number \<Rightarrow> bool" where
  "isFinite (Fin x) = True"
| "isFinite NaN = False"
| "isFinite PosInfinity = False"
| "isFinite NegInfinity = False"

text \<open>\<open>a - b\<close>\<close>

fun js_sub :: "number \<Rightarrow> number \<Rightarrow> number" where
  "js_sub (Fin a) (Fin b) = Fin (a - b)"
| "js_sub NaN b = NaN"
| "js_sub a NaN = NaN"
| "js_sub PosInfinity PosInfinity = NaN"
| "js_sub NegInfinity NegInfinity = NaN"
| "js_sub PosInfinity b = PosInfinity"
| "js_sub NegInfinity b = NegInfinity"
| "js_sub (Fin a) PosInfinity = NegInfinity"
| "js_sub (Fin a) NegInfinity = PosInfinity"

text \<open>\<open>a + b\<close>\<close>

fun js_add :: "number \<Rightarrow> number \<Rightarrow> number" where
  "js_add (Fin a) (Fin b) = Fin (a + b)"
| "js_add NaN b = NaN"
| "js_add a NaN = NaN"
| "js_add PosInfinity NegInfinity = NaN"
| "js_add NegInfinity PosInfinity = NaN"
| "js_add PosInfinity b = PosInfinity"
| "js_add NegInfinity b = NegInfinity"
| "js_add (Fin a) PosInfinity = PosInfinity"
| "js_add (Fin a) NegInfinity = NegInfinity"

text \<open>\<open>a * b\<close>\<close>

fun js_mul :: "number \<Rightarrow> number \<Rightarrow> number" where
  "js_mul (Fin a) (Fin b) = Fin (a * b)"
| "js_mul NaN b = NaN"
| "js_mul a NaN = NaN"
| "js_mul PosInfinity (Fin b) = (if b = 0 then NaN else if 0 < b then PosInfinity else NegInfinity)"
| "js_mul NegInfinity (Fin b) = (if b = 0 then NaN else if 0 < b then NegInfinity else PosInfinity)"
| "js_mul (Fin a) PosInfinity = (if a = 0 then NaN else if 0 < a then PosInfinity else NegInfinity)"
| "js_mul (Fin a) NegInfinity = (if a = 0 then NaN else if 0 < a then NegInfinity else PosInfinity)"
| "js_mul PosInfinity PosInfinity = PosInfinity"
| "js_mul NegInfinity NegInfinity = PosInfinity"
| "js_mul PosInfinity NegInfinity = NegInfinity"
| "js_mul NegInfinity PosInfinity = NegInfinity"

text \<open>\<open>a / b\<close>: a division by zero gives an infinity, and \<open>0 / 0\<close> gives \<open>NaN\<close>.\<close>

fun js_div :: "number \<Rightarrow> number \<Rightarrow> number" where
  "js_div (Fin a) (Fin b) =
     (if b \<noteq> 0 then Fin (a / b)
      else if a = 0 then NaN else if 0 < a then PosInfinity else NegInfinity)"
| "js_div NaN b = NaN"
| "js_div a NaN = NaN"
| "js_div (Fin a) PosInfinity = Fin 0"
| "js_div (Fin a) NegInfinity = Fin 0"
| "js_div PosInfinity (Fin b) = (if 0 \<le> b then PosInfinity else NegInfinity)"
| "js_div NegInfinity (Fin b) = (if 0 \<le> b then NegInfinity else PosInfinity)"
| "js_div PosInfinity PosInfinity = NaN"
| "js_div PosInfinity NegInfinity = NaN"
| "js_div NegInfinity PosInfinity = NaN"
| "js_div NegInfinity NegInfinity = NaN"

text \<open>\<open>a > b\<close>: every comparison with \<open>NaN\<close> is false.\<close>

fun js_gt :: "number \<Rightarrow> number \<Rightarrow> bool" where
  "js_gt (Fin a) (Fin b) = (b < a)"
| "js_gt NaN b = False"
| "js_gt a NaN = False"
| "js_gt PosInfinity PosInfinity = False"
| "js_gt PosInfinity b = True"
| "js_gt NegInfinity b = False"
| "js_gt (Fin a) PosInfinity = False"
| "js_gt (Fin a) NegInfinity = True"

text \<open>
  \<open>x || d\<close> for \<open>x : number | null\<close>: \<open>null\<close>, \<open>0\<close> and \<open>NaN\<close> are falsy, and the
  default \<open>d\<close> is the value then.
\<close>

fun js_or :: "number option \<Rightarrow> number \<Rightarrow> number" where
  "js_or None d = d"
| "js_or (Some NaN) d = d"
| "js_or (Some (Fin x)) d = (if x = 0 then d else Fin x)"
| "js_or (Some PosInfinity) d = PosInfinity"
| "js_or (Some NegInfinity) d = NegInfinity"

text \<open>
  \<open>Number(x)\<close> for a Prisma \<open>Decimal | null\<close>: \<open>Number(null)\<close> is \<open>0\<close>, and a decimal
  becomes the number of its value.
\<close>

fun Number :: "rat option \<Rightarrow> number" where
  "Number None = Fin 0"
| "Number (Some d) = Fin d"

text \<open>\<open>Math.round(x)\<close>: the nearest integer, a tie going up.\<close>

fun Math_round :: "number \<Rightarrow> number" where
  "Math_round (Fin x) = Fin (of_int \<lfloor>x + 1 / 2\<rfloor>)"
| "Math_round x = x"

text \<open>An integer column read as a JavaScript number.\<close>

definition int_number :: "int \<Rightarrow> number" where
  "int_number i = Fin (of_int i)"

section \<open>Dates\<close>

text \<open>
  A \<open>Date\<close> is its time value: milliseconds since the epoch, as an integer. The helpers
  of \<open>date-fns\<close> work in the time zone of the process. That zone is a parameter of the
  model: \<open>zone\<close> is its offset, local time minus UTC, in milliseconds (\<open>- 28800000\<close> for a
  process eight hours behind UTC). The offset is one number, so a local day is 86400000
  milliseconds long; a zone that changes its offset is not described.
\<close>

definition msPerDay :: int where
  "msPerDay = 86400000"

definition subDays :: "int \<Rightarrow> int \<Rightarrow> int" where
  "subDays d amount = d - amount * msPerDay"

text \<open>
  \<open>startOfDay\<close> and \<open>endOfDay\<close> give the first and the last millisecond of the local
  calendar day of an instant: 00:00:00.000 and 23:59:59.999 on the clock of the zone.
\<close>

definition startOfDay :: "int \<Rightarrow> int \<Rightarrow> int" where
  "startOfDay zone d = ((d + zone) div msPerDay) * msPerDay - zone"

definition endOfDay :: "int \<Rightarrow> int \<Rightarrow> int" where
  "endOfDay zone d = ((d + zone) div msPerDay) * msPerDay + (msPerDay - 1) - zone"

text \<open>
  The number of the UTC calendar day an instant lies in (day 0 is 1970-01-01); the local
  calendar day of an instant \<open>d\<close> is \<open>dayOf (d + zone)\<close>.
\<close>

definition dayOf :: "int \<Rightarrow> int" where
  "dayOf d = d div msPerDay"

text \<open>
  Prisma's \<open>DateTimeFilter\<close>, with the three operators the services use; an operator
  that is not given does not constrain.
\<close>

record DateTimeFilter =
  gte :: "int option"
  lte :: "int option"
  lt :: "int option"

definition date_matches :: "DateTimeFilter \<Rightarrow> int \<Rightarrow> bool" where
  "date_matches f d =
     ((case gte f of None \<Rightarrow> True | Some b \<Rightarrow> b \<le> d) \<and>
      (case lte f of None \<Rightarrow> True | Some b \<Rightarrow> d \<le> b) \<and>
      (case lt f of None \<Rightarrow> True | Some b \<Rightarrow> d < b))"

section \<open>The data store: daily metrics\<close>

text \<open>
  The store is a snapshot of its tables, each a list of rows. Field names carry a prefix
  for their record (\<open>m_\<close> for a \<open>DailyMetric\<close> row), since the fields of all records
  share one name space.
\<close>

record DailyMetric =
  m_organizationId :: string
  m_date :: int
  m_revenue :: rat
  m_activeUsers :: int
  m_newUsers :: int
  m_totalCustomers :: int
  m_newCustomers :: int
  m_churnedCustomers :: int
  m_conversionRate :: rat

text \<open>
  The result of \<open>prisma.dailyMetric.aggregate\<close> with the \<open>_sum\<close> and \<open>_avg\<close> selections
  of \<open>getKPIData\<close>. Over no rows every sum and every average is \<open>null\<close>.
\<close>

record MetricAggregate =
  sum_revenue :: "rat option"
  sum_activeUsers :: "int option"
  sum_churnedCustomers :: "int option"
  sum_totalCustomers :: "int option"
  avg_conversionRate :: "rat option"

definition dailyMetric_where :: "string \<Rightarrow> DateTimeFilter \<Rightarrow> DailyMetric \<Rightarrow> bool" where
  "dailyMetric_where organizationId f m =
     (m_organizationId m = organizationId \<and> date_matches f (m_date m))"

definition aggregate_rows :: "DailyMetric list \<Rightarrow> MetricAggregate" where
  "aggregate_rows rows =
     (if rows = [] then
        \<lparr>sum_revenue = None, sum_activeUsers = None, sum_churnedCustomers = None,
         sum_totalCustomers = None, avg_conversionRate = None\<rparr>
      else
        \<lparr>sum_revenue = Some (sum_list (map m_revenue rows)),
         sum_activeUsers = Some (sum_list (map m_activeUsers rows)),
         sum_churnedCustomers = Some (sum_list (map m_churnedCustomers rows)),
         sum_totalCustomers = Some (sum_list (map m_totalCustomers rows)),
         avg_conversionRate =
           Some (sum_list (map m_conversionRate rows) / of_nat (length rows))\<rparr>)"

definition dailyMetric_aggregate ::
  "DailyMetric list \<Rightarrow> string \<Rightarrow> DateTimeFilter \<Rightarrow> MetricAggregate" where
  "dailyMetric_aggregate store organizationId f =
     aggregate_rows (filter (dailyMetric_where organizationId f) store)"

section \<open>getKPIData\<close>

record KPIData =
  revenue :: number
  revenueChange :: number
  activeUsers :: number
  activeUsersChange :: number
  conversionRate :: number
  conversionChange :: number
  churnRate :: number
  churnChange :: number

text \<open>
  \<open>getKPIData\<close> of \<open>services/dashboard.ts\<close>. The store snapshot and the instant
  \<open>today = new Date()\<close> are arguments.
\<close>

definition getKPIData :: "DailyMetric list \<Rightarrow> int \<Rightarrow> string \<Rightarrow> KPIData" where
  "getKPIData store today organizationId =
     (let thirtyDaysAgo = subDays today 30;
          sixtyDaysAgo = subDays today 60;
          currentMetrics = dailyMetric_aggregate store organizationId
            \<lparr>gte = Some thirtyDaysAgo, lte = Some today, lt = None\<rparr>;
          previousMetrics = dailyMetric_aggregate store organizationId
            \<lparr>gte = Some sixtyDaysAgo, lte = None, lt = Some thirtyDaysAgo\<rparr>;
          currentRevenue = js_or (Some (Number (sum_revenue currentMetrics))) (Fin 0);
          previousRevenue = js_or (Some (Number (sum_revenue previousMetrics))) (Fin 0);
          revenueChange =
            (if js_gt previousRevenue (Fin 0)
             then js_mul (js_div (js_sub currentRevenue previousRevenue) previousRevenue) (Fin 100)
             else Fin 0);
          currentActiveUsers =
            js_div (js_or (map_option int_number (sum_activeUsers currentMetrics)) (Fin 0)) (Fin 30);
          previousActiveUsers =
            js_div (js_or (map_option int_number (sum_activeUsers previousMetrics)) (Fin 0)) (Fin 30);
          activeUsersChange =
            (if js_gt previousActiveUsers (Fin 0)
             then js_mul (js_div (js_sub currentActiveUsers previousActiveUsers) previousActiveUsers)
                    (Fin 100)
             else Fin 0);
          currentConversion = js_or (Some (Number (avg_conversionRate currentMetrics))) (Fin 0);
          previousConversion = js_or (Some (Number (avg_conversionRate previousMetrics))) (Fin 0);
          conversionChange =
            (if js_gt previousConversion (Fin 0)
             then js_mul (js_div (js_sub currentConversion previousConversion) previousConversion)
                    (Fin 100)
             else Fin 0);
          currentTotalCustomers =
            js_or (map_option int_number (sum_totalCustomers currentMetrics)) (Fin 1);
          currentChurned =
            js_or (map_option int_number (sum_churnedCustomers currentMetrics)) (Fin 0);
          currentChurnRate =
            js_mul (js_div currentChurned (js_div currentTotalCustomers (Fin 30))) (Fin 100);
          previousTotalCustomers =
            js_or (map_option int_number (sum_totalCustomers previousMetrics)) (Fin 1);
          previousChurned =
            js_or (map_option int_number (sum_churnedCustomers previousMetrics)) (Fin 0);
          previousChurnRate =
            js_mul (js_div previousChurned (js_div previousTotalCustomers (Fin 30))) (Fin 100);
          churnChange =
            (if js_gt previousChurnRate (Fin 0)
             then js_mul (js_div (js_sub currentChurnRate previousChurnRate) previousChurnRate)
                    (Fin 100)
             else Fin 0)
      in \<lparr>revenue = currentRevenue,
          revenueChange = revenueChange,
          activeUsers = Math_round currentActiveUsers,
          activeUsersChange = activeUsersChange,
          conversionRate = currentConversion,
          conversionChange = conversionChange,
          churnRate = currentChurnRate,
          churnChange = churnChange\<rparr>)"

subsection \<open>The windows and formulas of the specification\<close>

text \<open>
  The two windows of section 4.1 of the specification, as the rows of the store that an
  organization has in them: the current window is \<open>[today - 30 days, today]\<close>, the
  previous one \<open>[today - 60 days, today - 30 days)\<close>.
\<close>

definition currentWindow :: "DailyMetric list \<Rightarrow> int \<Rightarrow> string \<Rightarrow> DailyMetric list" where
  "currentWindow store today organizationId =
     filter (\<lambda>m. m_organizationId m = organizationId \<and>
                 today - 30 * 86400000 \<le> m_date m \<and> m_date m \<le> today) store"

definition previousWindow :: "DailyMetric list \<Rightarrow> int \<Rightarrow> string \<Rightarrow> DailyMetric list" where
  "previousWindow store today organizationId =
     filter (\<lambda>m. m_organizationId m = organizationId \<and>
                 today - 60 * 86400000 \<le> m_date m \<and> m_date m < today - 30 * 86400000) store"

text \<open>
  The figures of a window as the specification words them, over the rationals: the
  revenue sum, the active users sum over 30, the conversion average (0 over no rows), the
  churn rate with a zero customer total replaced by 1, and the percent change guarded
  to 0.
\<close>

definition percentChange :: "rat \<Rightarrow> rat \<Rightarrow> rat" where
  "percentChange current previous =
     (if 0 < previous then (current - previous) / previous * 100 else 0)"

definition revenueOf :: "DailyMetric list \<Rightarrow> rat" where
  "revenueOf rows = sum_list (map m_revenue rows)"

definition averageActiveUsersOf :: "DailyMetric list \<Rightarrow> rat" where
  "averageActiveUsersOf rows = of_int (sum_list (map m_activeUsers rows)) / 30"

definition conversionOf :: "DailyMetric list \<Rightarrow> rat" where
  "conversionOf rows =
     (if rows = [] then 0 else sum_list (map m_conversionRate rows) / of_nat (length rows))"

definition churnRateOf :: "DailyMetric list \<Rightarrow> rat" where
  "churnRateOf rows =
     (let total = sum_list (map m_totalCustomers rows);
          churned = sum_list (map m_churnedCustomers rows)
      in of_int churned / (of_int (if total = 0 then 1 else total) / 30) * 100)"

text \<open>Example rows: an organization with 30 customers and 3 churned on one day.\<close>

definition metric_example :: DailyMetric where
  "metric_example =
     \<lparr>m_organizationId = ''org1'', m_date = 1705276800000, m_revenue = 1000,
      m_activeUsers = 900, m_newUsers = 20, m_totalCustomers = 30, m_newCustomers = 2,
      m_churnedCustomers = 3, m_conversionRate = 5 / 2\<rparr>"


section \<open>The data store: transactions\<close>

datatype TransactionStatus = COMPLETED | PENDING | FAILED | REFUNDED

datatype TransactionType = PAYMENT | SUBSCRIPTION | ONE_TIME | REFUND

text \<open>An enum value as the string that JavaScript sees.\<close>

fun status_name :: "TransactionStatus \<Rightarrow> string" where
  "status_name COMPLETED = ''COMPLETED''"
| "status_name PENDING = ''PENDING''"
| "status_name FAILED = ''FAILED''"
| "status_name REFUNDED = ''REFUNDED''"

fun type_name :: "TransactionType \<Rightarrow> string" where
  "type_name PAYMENT = ''PAYMENT''"
| "type_name SUBSCRIPTION = ''SUBSCRIPTION''"
| "type_name ONE_TIME = ''ONE_TIME''"
| "type_name REFUND = ''REFUND''"

definition parse_status :: "string \<Rightarrow> TransactionStatus option" where
  "parse_status s =
     (if s = ''COMPLETED'' then Some COMPLETED else if s = ''PENDING'' then Some PENDING
      else if s = ''FAILED'' then Some FAILED else if s = ''REFUNDED'' then Some REFUNDED
      else None)"

definition parse_type :: "string \<Rightarrow> TransactionType option" where
  "parse_type s =
     (if s = ''PAYMENT'' then Some PAYMENT else if s = ''SUBSCRIPTION'' then Some SUBSCRIPTION
      else if s = ''ONE_TIME'' then Some ONE_TIME else if s = ''REFUND'' then Some REFUND
      else None)"

text \<open>
  A customer as a transaction query selects it (\<open>name\<close> and \<open>email\<close>), and a transaction
  row with the customer it refers to. \<open>Decimal\<close> columns are rationals, \<open>DateTime\<close>
  columns are instants.
\<close>

record Customer =
  c_name :: "string option"
  c_email :: string

record Transaction =
  t_id :: string
  t_amount :: rat
  t_currency :: string
  t_status :: TransactionStatus
  t_type :: TransactionType
  t_description :: "string option"
  t_createdAt :: int
  t_organizationId :: string
  t_customer :: Customer

datatype error = PrismaClientValidationError | RangeError

text \<open>
  The \<open>where\<close> argument of the two transaction queries: the organization, and the
  optional conditions on \<open>createdAt\<close>, \<open>status\<close>, \<open>type\<close> and on the customer (name or
  e-mail containing a text, case-insensitively). A condition that is \<open>None\<close> is absent.
\<close>

record TransactionWhereInput =
  w_organizationId :: string
  w_createdAt :: "DateTimeFilter option"
  w_status :: "string option"
  w_type :: "string option"
  w_customer_contains :: "string option"

definition lower_char :: "char \<Rightarrow> char" where
  "lower_char c =
     (let n = (of_char c :: nat) in if 65 \<le> n \<and> n \<le> 90 then char_of (n + 32) else c)"

fun contains :: "string \<Rightarrow> string \<Rightarrow> bool" where
  "contains [] needle = (needle = [])"
| "contains (c # cs) needle = (take (length needle) (c # cs) = needle \<or> contains cs needle)"

definition contains_insensitive :: "string \<Rightarrow> string \<Rightarrow> bool" where
  "contains_insensitive hay needle = contains (map lower_char hay) (map lower_char needle)"

text \<open>
  Prisma rejects a query whose \<open>status\<close> or \<open>type\<close> is not a value of the enum
  (\<open>PrismaClientValidationError\<close>).
\<close>

definition where_valid :: "TransactionWhereInput \<Rightarrow> bool" where
  "where_valid w =
     ((case w_status w of None \<Rightarrow> True | Some s \<Rightarrow> parse_status s \<noteq> None) \<and>
      (case w_type w of None \<Rightarrow> True | Some s \<Rightarrow> parse_type s \<noteq> None))"

definition transaction_where :: "TransactionWhereInput \<Rightarrow> Transaction \<Rightarrow> bool" where
  "transaction_where w t =
     (t_organizationId t = w_organizationId w \<and>
      (case w_createdAt w of None \<Rightarrow> True | Some f \<Rightarrow> date_matches f (t_createdAt t)) \<and>
      (case w_status w of None \<Rightarrow> True | Some s \<Rightarrow> status_name (t_status t) = s) \<and>
      (case w_type w of None \<Rightarrow> True | Some s \<Rightarrow> type_name (t_type t) = s) \<and>
      (case w_customer_contains w of None \<Rightarrow> True
       | Some s \<Rightarrow>
           (case c_name (t_customer t) of None \<Rightarrow> False | Some n \<Rightarrow> contains_insensitive n s) \<or>
           contains_insensitive (c_email (t_customer t)) s))"

text \<open>
  What the services take from their surroundings and the source does not fix:

    \<^item> \<open>zone\<close>: the offset of the time zone of the process, for \<open>startOfDay\<close> and
      \<open>endOfDay\<close>;
    \<^item> \<open>parseISO\<close>: the function of that name of \<open>date-fns\<close>, from a string to the time
      value of a \<open>Date\<close> (\<open>None\<close> is the invalid \<open>Date\<close>);
    \<^item> \<open>tie_order\<close>: the order in which the database returns rows with the same
      \<open>createdAt\<close>. The queries order by \<open>createdAt\<close> alone, so the database is free
      there, and free to decide otherwise for another \<open>skip\<close> and \<open>take\<close>: \<open>tie_order\<close>
      is a sort key of the database's own choosing, given the \<open>skip\<close> and the \<open>take\<close> of
      the query, that decides among such rows;
    \<^item> \<open>Date_parse\<close>: the time value of \<open>new Date(s)\<close> for a string \<open>s\<close> (\<open>None\<close> is the
      invalid \<open>Date\<close>);
    \<^item> \<open>Number_toString\<close>: the text of a number of size \<open>10\<^sup>2\<^sup>1\<close> or more, which
      \<open>toFixed\<close> returns for such a number (exponent notation, as in \<open>1e+21\<close>).
\<close>

record Environment =
  zone :: int
  parseISO :: "string \<Rightarrow> int option"
  tie_order :: "int option \<Rightarrow> int option \<Rightarrow> Transaction \<Rightarrow> int"
  Date_parse :: "string \<Rightarrow> int option"
  Number_toString :: "rat \<Rightarrow> string"

definition transaction_count :: "Transaction list \<Rightarrow> TransactionWhereInput \<Rightarrow> error + nat" where
  "transaction_count store w =
     (if where_valid w then Inr (length (filter (transaction_where w) store))
      else Inl PrismaClientValidationError)"

text \<open>
  \<open>orderBy: { createdAt: "desc" }\<close> in a query with the given \<open>skip\<close> and \<open>take\<close>: the
  rows sorted by falling \<open>createdAt\<close>, rows with the same \<open>createdAt\<close> by rising
  \<open>tie_order\<close> (the second sort is stable, so it keeps the order of the first among
  rows with the same \<open>createdAt\<close>).
\<close>

definition orderBy_createdAt_desc ::
  "Environment \<Rightarrow> int option \<Rightarrow> int option \<Rightarrow> Transaction list \<Rightarrow> Transaction list" where
  "orderBy_createdAt_desc env skip tk rows =
     sort_key (\<lambda>t. - t_createdAt t) (sort_key (tie_order env skip tk) rows)"

text \<open>
  \<open>prisma.transaction.findMany\<close> with \<open>where\<close>, the ordering by \<open>createdAt\<close> and the
  optional \<open>skip\<close> and \<open>take\<close>. A negative \<open>skip\<close> is rejected; a negative \<open>take\<close> counts
  from the end of the ordered rows.
\<close>

definition transaction_findMany ::
  "Environment \<Rightarrow> Transaction list \<Rightarrow> TransactionWhereInput \<Rightarrow> int option \<Rightarrow> int option \<Rightarrow>
   error + Transaction list" where
  "transaction_findMany env store w skip tk =
     (if \<not> where_valid w then Inl PrismaClientValidationError
      else
        let rows = orderBy_createdAt_desc env skip tk (filter (transaction_where w) store);
            s = (case skip of None \<Rightarrow> 0 | Some k \<Rightarrow> k)
        in if s < 0 then Inl PrismaClientValidationError
           else (case tk of
                   None \<Rightarrow> Inr (drop (nat s) rows)
                 | Some n \<Rightarrow>
                     if 0 \<le> n then Inr (take (nat n) (drop (nat s) rows))
                     else Inr (rev (take (nat (- n)) (drop (nat s) (rev rows))))))"

text \<open>A string in a condition: \<open>undefined\<close> and the empty string are falsy.\<close>

fun truthy :: "string option \<Rightarrow> bool" where
  "truthy None = False"
| "truthy (Some s) = (s \<noteq> [])"

section \<open>JavaScript strings, number formatting and dates\<close>


definition newline :: char where
  "newline = CHR 0x0A"


text \<open>\<open>s.split(sep)\<close> for a separator of one character; the result is never empty.\<close>

fun split :: "char \<Rightarrow> string \<Rightarrow> string list" where
  "split sep [] = [[]]"
| "split sep (c # cs) =
     (if c = sep then [] # split sep cs
      else (case split sep cs of [] \<Rightarrow> [[c]] | r # rs \<Rightarrow> (c # r) # rs))"

definition digit_char :: "nat \<Rightarrow> char" where
  "digit_char d =
     (if d = 0 then CHR ''0'' else if d = 1 then CHR ''1'' else if d = 2 then CHR ''2''
      else if d = 3 then CHR ''3'' else if d = 4 then CHR ''4'' else if d = 5 then CHR ''5''
      else if d = 6 then CHR ''6'' else if d = 7 then CHR ''7'' else if d = 8 then CHR ''8''
      else CHR ''9'')"

definition digit_value :: "char \<Rightarrow> nat option" where
  "digit_value c =
     (let n = (of_char c :: nat) in if 48 \<le> n \<and> n \<le> 57 then Some (n - 48) else None)"

text \<open>The last \<open>w\<close> decimal digits of \<open>n\<close>, with leading zeros.\<close>

primrec pad :: "nat \<Rightarrow> nat \<Rightarrow> string" where
  "pad 0 n = []"
| "pad (Suc w) n = pad w (n div 10) @ [digit_char (n mod 10)]"





text \<open>
  The calendar date (year, month, day) of a day number, and back: the proleptic Gregorian
  calendar of ECMAScript, computed by eras of 400 years with the year starting in March.
\<close>

definition civilFromDays :: "int \<Rightarrow> int \<times> int \<times> int" where
  "civilFromDays days =
     (let z = days + 719468;
          era = z div 146097;
          doe = z mod 146097;
          yoe = (doe - doe div 1460 + doe div 36524 - doe div 146096) div 365;
          doy = doe - (365 * yoe + yoe div 4 - yoe div 100);
          mp = (5 * doy + 2) div 153;
          d = doy - (153 * mp + 2) div 5 + 1;
          m = (if mp < 10 then mp + 3 else mp - 9);
          y = yoe + era * 400
      in (if m \<le> 2 then y + 1 else y, m, d))"

definition daysFromCivil :: "int \<Rightarrow> int \<Rightarrow> int \<Rightarrow> int" where
  "daysFromCivil y0 m d =
     (let y = (if m \<le> 2 then y0 - 1 else y0);
          era = y div 400;
          yoe = y mod 400;
          doy = (153 * (if 2 < m then m - 3 else m + 9) + 2) div 5 + d - 1;
          doe = yoe * 365 + yoe div 4 - yoe div 100 + doy
      in era * 146097 + doe - 719468)"

definition daysInMonth :: "int \<Rightarrow> int \<Rightarrow> int" where
  "daysInMonth y m =
     (if m = 2 then (if y mod 4 = 0 \<and> (y mod 100 \<noteq> 0 \<or> y mod 400 = 0) then 29 else 28)
      else if m = 4 \<or> m = 6 \<or> m = 9 \<or> m = 11 then 30 else 31)"

text \<open>The year of \<open>toISOString\<close>: four digits, or a sign and six digits outside 0 to 9999.\<close>

definition year_string :: "int \<Rightarrow> string" where
  "year_string y =
     (if 0 \<le> y \<and> y \<le> 9999 then pad 4 (nat y)
      else (if y < 0 then ''-'' else ''+'') @ pad 6 (nat \<bar>y\<bar>))"

text \<open>\<open>d.toISOString()\<close> for a valid date \<open>d\<close>: \<open>YYYY-MM-DDTHH:mm:ss.sssZ\<close>.\<close>

definition toISOString :: "int \<Rightarrow> string" where
  "toISOString tv =
     (let (y, m, d) = civilFromDays (tv div msPerDay);
          ms = nat (tv mod msPerDay)
      in year_string y @ ''-'' @ pad 2 (nat m) @ ''-'' @ pad 2 (nat d) @ ''T'' @
         pad 2 (ms div 3600000) @ '':'' @ pad 2 (ms div 60000 mod 60) @ '':'' @
         pad 2 (ms div 1000 mod 60) @ ''.'' @ pad 3 (ms mod 1000) @ ''Z'')"

fun digits_value :: "string \<Rightarrow> nat option" where
  "digits_value [] = Some 0"
| "digits_value (c # cs) =
     (case (digit_value c, digits_value cs) of
        (Some d, Some r) \<Rightarrow> Some (d * 10 ^ length cs + r)
      | _ \<Rightarrow> None)"

text \<open>
  A reader of the one form that \<open>toISOString\<close> writes for the years 0 to 9999,
  \<open>YYYY-MM-DDTHH:mm:ss.sssZ\<close> with a date and a time that exist; every other string is
  \<open>None\<close> to it. It is not the \<open>Date_parse\<close> of an engine, which reads further forms; it
  serves as the \<open>Date_parse\<close> of the example environment, whose rows carry that form.
\<close>

definition read_instant :: "string \<Rightarrow> int option" where
  "read_instant s =
     (if length s = 24 \<and> s ! 4 = CHR ''-'' \<and> s ! 7 = CHR ''-'' \<and> s ! 10 = CHR ''T'' \<and>
         s ! 13 = CHR '':'' \<and> s ! 16 = CHR '':'' \<and> s ! 19 = CHR ''.'' \<and> s ! 23 = CHR ''Z''
      then
        (case (digits_value (take 4 s), digits_value (take 2 (drop 5 s)),
               digits_value (take 2 (drop 8 s)), digits_value (take 2 (drop 11 s)),
               digits_value (take 2 (drop 14 s)), digits_value (take 2 (drop 17 s)),
               digits_value (take 3 (drop 20 s))) of
           (Some y, Some m, Some d, Some h, Some mi, Some sec, Some ms) \<Rightarrow>
             if 1 \<le> m \<and> m \<le> 12 \<and> 1 \<le> d \<and> int d \<le> daysInMonth (int y) (int m) \<and>
                h \<le> 23 \<and> mi \<le> 59 \<and> sec \<le> 59
             then Some (daysFromCivil (int y) (int m) (int d) * msPerDay +
                        int (h * 3600000 + mi * 60000 + sec * 1000 + ms))
             else None
         | _ \<Rightarrow> None)
      else None)"

section \<open>getChartData\<close>

record ChartPoint =
  cp_date :: string
  cp_revenue :: number
  cp_activeUsers :: number

text \<open>\<open>prisma.dailyMetric.findMany\<close> with \<open>orderBy: { date: "asc" }\<close>.\<close>

definition dailyMetric_findMany :: "DailyMetric list \<Rightarrow> string \<Rightarrow> DateTimeFilter \<Rightarrow> DailyMetric list" where
  "dailyMetric_findMany store organizationId f =
     sort_key m_date (filter (dailyMetric_where organizationId f) store)"

text \<open>
  \<open>getChartData\<close> of \<open>services/dashboard.ts\<close>. The instant \<open>now\<close> stands for both
  calls of \<open>new Date()\<close>; \<open>days\<close> is \<open>None\<close> when the caller leaves it out. The bounds of
  the query are local days of the zone of the process; the date string of a point is
  the UTC day of the row, since \<open>toISOString\<close> writes UTC.
\<close>

definition getChartData ::
  "Environment \<Rightarrow> DailyMetric list \<Rightarrow> int \<Rightarrow> string \<Rightarrow> int option \<Rightarrow> ChartPoint list" where
  "getChartData env store now organizationId days_arg =
     (let days = (case days_arg of None \<Rightarrow> 30 | Some n \<Rightarrow> n);
          startDate = subDays now days;
          metrics = dailyMetric_findMany store organizationId
            \<lparr>gte = Some (startOfDay (zone env) startDate), lte = Some (endOfDay (zone env) now),
             lt = None\<rparr>
      in map (\<lambda>m. \<lparr>cp_date = hd (split CHR ''T'' (toISOString (m_date m))),
                    cp_revenue = Number (Some (m_revenue m)),
                    cp_activeUsers = int_number (m_activeUsers m)\<rparr>) metrics)"

section \<open>getTransactions\<close>

record DashboardFilters =
  df_organizationId :: string
  df_search :: "string option"
  df_status :: "string option"
  df_page :: "int option"
  df_pageSize :: "int option"

record DashboardTransaction =
  d_id :: string
  d_amount :: number
  d_currency :: string
  d_status :: string
  d_type :: string
  d_description :: "string option"
  d_createdAt :: string
  d_customer :: Customer

record TransactionsPage =
  tp_transactions :: "DashboardTransaction list"
  tp_totalCount :: nat
  tp_page :: int
  tp_pageSize :: int

definition toDashboardTransaction :: "Transaction \<Rightarrow> DashboardTransaction" where
  "toDashboardTransaction t =
     \<lparr>d_id = t_id t,
      d_amount = Number (Some (t_amount t)),
      d_currency = t_currency t,
      d_status = status_name (t_status t),
      d_type = type_name (t_type t),
      d_description = t_description t,
      d_createdAt = toISOString (t_createdAt t),
      d_customer = t_customer t\<rparr>"

text \<open>The \<open>where\<close> clause that \<open>getTransactions\<close> builds.\<close>

definition dashboard_where :: "DashboardFilters \<Rightarrow> TransactionWhereInput" where
  "dashboard_where filters =
     \<lparr>w_organizationId = df_organizationId filters,
      w_createdAt = None,
      w_status = (if truthy (df_status filters) \<and> df_status filters \<noteq> Some ''all''
                  then df_status filters else None),
      w_type = None,
      w_customer_contains = (if truthy (df_search filters) then df_search filters else None)\<rparr>"

text \<open>\<open>getTransactions\<close> of \<open>services/dashboard.ts\<close>; a rejected query is \<open>Inl\<close>.\<close>

definition getTransactions ::
  "Environment \<Rightarrow> Transaction list \<Rightarrow> DashboardFilters \<Rightarrow> error + TransactionsPage" where
  "getTransactions env store filters =
     (let page = (case df_page filters of None \<Rightarrow> 1 | Some p \<Rightarrow> p);
          pageSize = (case df_pageSize filters of None \<Rightarrow> 10 | Some n \<Rightarrow> n);
          wh = dashboard_where filters
      in case transaction_count store wh of
           Inl e \<Rightarrow> Inl e
         | Inr totalCount \<Rightarrow>
             (case transaction_findMany env store wh (Some ((page - 1) * pageSize))
                     (Some pageSize) of
                Inl e \<Rightarrow> Inl e
              | Inr transactions \<Rightarrow>
                  Inr \<lparr>tp_transactions = map toDashboardTransaction transactions,
                       tp_totalCount = totalCount,
                       tp_page = page,
                       tp_pageSize = pageSize\<rparr>))"

section \<open>getReportData and generateCSV\<close>

record ReportFilters =
  rf_organizationId :: string
  rf_startDate :: "string option"
  rf_endDate :: "string option"
  rf_status :: "string option"
  rf_type :: "string option"

record ReportTransaction =
  r_id :: string
  r_amount :: number
  r_currency :: string
  r_status :: string
  r_type :: string
  r_description :: "string option"
  r_createdAt :: string
  r_customerName :: string
  r_customerEmail :: string

record Summary =
  totalTransactions :: nat
  totalRevenue :: number
  completedCount :: nat
  pendingCount :: nat
  failedCount :: nat
  refundedCount :: nat

record ReportData =
  rd_transactions :: "ReportTransaction list"
  rd_summary :: Summary

text \<open>
  One bound of the \<open>createdAt\<close> filter: absent when the filter string is falsy, else
  \<open>startOfDay\<close> or \<open>endOfDay\<close> of the parsed date. An Invalid Date in a filter makes
  Prisma reject the query; nothing happens between the building of the filter and the
  query, so the model raises the error where the bound is built.
\<close>

definition date_bound ::
  "Environment \<Rightarrow> (int \<Rightarrow> int \<Rightarrow> int) \<Rightarrow> string option \<Rightarrow> error + int option" where
  "date_bound env adjust s =
     (case s of
        None \<Rightarrow> Inr None
      | Some str \<Rightarrow>
          if str = [] then Inr None
          else (case parseISO env str of
                  None \<Rightarrow> Inl PrismaClientValidationError
                | Some d \<Rightarrow> Inr (Some (adjust (zone env) d))))"

definition report_where :: "Environment \<Rightarrow> ReportFilters \<Rightarrow> error + TransactionWhereInput" where
  "report_where env filters =
     (case date_bound env startOfDay (rf_startDate filters) of
        Inl e \<Rightarrow> Inl e
      | Inr lower \<Rightarrow>
          (case date_bound env endOfDay (rf_endDate filters) of
             Inl e \<Rightarrow> Inl e
           | Inr upper \<Rightarrow>
               Inr \<lparr>w_organizationId = rf_organizationId filters,
                    w_createdAt =
                      (if truthy (rf_startDate filters) \<or> truthy (rf_endDate filters)
                       then Some \<lparr>gte = lower, lte = upper, lt = None\<rparr> else None),
                    w_status = (if truthy (rf_status filters) \<and> rf_status filters \<noteq> Some ''all''
                                then rf_status filters else None),
                    w_type = (if truthy (rf_type filters) \<and> rf_type filters \<noteq> Some ''all''
                              then rf_type filters else None),
                    w_customer_contains = None\<rparr>))"

definition toReportTransaction :: "Transaction \<Rightarrow> ReportTransaction" where
  "toReportTransaction t =
     \<lparr>r_id = t_id t,
      r_amount = Number (Some (t_amount t)),
      r_currency = t_currency t,
      r_status = status_name (t_status t),
      r_type = type_name (t_type t),
      r_description = t_description t,
      r_createdAt = toISOString (t_createdAt t),
      r_customerName = (if truthy (c_name (t_customer t)) then the (c_name (t_customer t))
                        else ''Unknown''),
      r_customerEmail = c_email (t_customer t)\<rparr>"

definition report_summary :: "Transaction list \<Rightarrow> Summary" where
  "report_summary transactions =
     \<lparr>totalTransactions = length transactions,
      totalRevenue =
        foldl (\<lambda>sum t. js_add sum (Number (Some (t_amount t)))) (Fin 0)
          (filter (\<lambda>t. status_name (t_status t) = ''COMPLETED'') transactions),
      completedCount = length (filter (\<lambda>t. status_name (t_status t) = ''COMPLETED'') transactions),
      pendingCount = length (filter (\<lambda>t. status_name (t_status t) = ''PENDING'') transactions),
      failedCount = length (filter (\<lambda>t. status_name (t_status t) = ''FAILED'') transactions),
      refundedCount = length (filter (\<lambda>t. status_name (t_status t) = ''REFUNDED'') transactions)\<rparr>"

text \<open>\<open>getReportData\<close> of \<open>services/reports.ts\<close>.\<close>

definition getReportData ::
  "Environment \<Rightarrow> Transaction list \<Rightarrow> ReportFilters \<Rightarrow> error + ReportData" where
  "getReportData env store filters =
     (case report_where env filters of
        Inl e \<Rightarrow> Inl e
      | Inr wh \<Rightarrow>
          (case transaction_findMany env store wh None None of
             Inl e \<Rightarrow> Inl e
           | Inr transactions \<Rightarrow>
               Inr \<lparr>rd_transactions = map toReportTransaction transactions,
                    rd_summary = report_summary transactions\<rparr>))"





section \<open>Notions of the specification for the transaction queries\<close>

text \<open>The rational value of a finite number.\<close>

fun finite_value :: "number \<Rightarrow> rat" where
  "finite_value (Fin q) = q"
| "finite_value NaN = 0"
| "finite_value PosInfinity = 0"
| "finite_value NegInfinity = 0"




subsection \<open>Example data\<close>

text \<open>
  An environment for the examples: a process in UTC, a database that leaves rows with
  the same \<open>createdAt\<close> in the order of the snapshot, and \<open>read_instant\<close> as the reader of
  dates. The examples neither parse a filter date nor print a number of size \<open>10^21\<close>
  or more; the two functions for that are constant.
\<close>

definition env_example :: Environment where
  "env_example =
     \<lparr>zone = 0, parseISO = (\<lambda>s. None), tie_order = (\<lambda>skip tk t. 0), Date_parse = read_instant,
      Number_toString = (\<lambda>q. [])\<rparr>"

definition customer_acme :: Customer where
  "customer_acme = \<lparr>c_name = Some ''Acme Co'', c_email = ''a@acme.com''\<rparr>"

definition tx1 :: Transaction where
  "tx1 = \<lparr>t_id = ''t1'', t_amount = 2469 / 2, t_currency = ''USD'', t_status = COMPLETED,
           t_type = PAYMENT, t_description = None, t_createdAt = 1705312800000,
           t_organizationId = ''org1'', t_customer = customer_acme\<rparr>"

definition tx2 :: Transaction where
  "tx2 = \<lparr>t_id = ''t2'', t_amount = 80, t_currency = ''USD'', t_status = PENDING,
           t_type = SUBSCRIPTION, t_description = Some ''Plan'', t_createdAt = 1705399200000,
           t_organizationId = ''org1'', t_customer = customer_acme\<rparr>"

definition tx3 :: Transaction where
  "tx3 = \<lparr>t_id = ''t3'', t_amount = 20, t_currency = ''USD'', t_status = COMPLETED,
           t_type = ONE_TIME, t_description = None, t_createdAt = 1705226400000,
           t_organizationId = ''org1'', t_customer = customer_acme\<rparr>"

definition store_example :: "Transaction list" where
  "store_example = [tx1, tx2, tx3]"


definition report_filters_example :: ReportFilters where
  "report_filters_example =
     \<lparr>rf_organizationId = ''org1'', rf_startDate = None, rf_endDate = None, rf_status = None,
      rf_type = None\<rparr>"





section \<open>Notions of the specification for the daily series\<close>

text \<open>
  A property that a store may have and the queries do not rely on: at most one
  \<open>DailyMetric\<close> row for an organization and a UTC calendar day. The seed script of the
  repository writes such a store, one row for a day at midnight UTC.
\<close>

definition one_row_per_day :: "DailyMetric list \<Rightarrow> bool" where
  "one_row_per_day store = distinct (map (\<lambda>m. (m_organizationId m, dayOf (m_date m))) store)"

text \<open>The calendar-day string \<open>YYYY-MM-DD\<close> of a day number.\<close>

definition day_string :: "int \<Rightarrow> string" where
  "day_string day =
     (let (y, m, d) = civilFromDays day
      in year_string y @ ''-'' @ pad 2 (nat m) @ ''-'' @ pad 2 (nat d))"

definition metric_example2 :: DailyMetric where
  "metric_example2 =
     \<lparr>m_organizationId = ''org1'', m_date = 1705190400000, m_revenue = 500,
      m_activeUsers = 850, m_newUsers = 10, m_totalCustomers = 30, m_newCustomers = 1,
      m_churnedCustomers = 0, m_conversionRate = 2\<rparr>"

definition chart_store :: "DailyMetric list" where
  "chart_store = [metric_example, metric_example2]"

text \<open>
  A process eight hours behind UTC; a row dated 2024-01-16T00:00:00Z, the instant the
  seed script writes for that day; and a row dated 2024-01-15T12:00:00Z, on the day of
  \<open>metric_example\<close> (2024-01-15T00:00:00Z) at another instant.
\<close>

definition env_behind :: Environment where
  "env_behind =
     \<lparr>zone = - 28800000, parseISO = (\<lambda>s. None), tie_order = (\<lambda>skip tk t. 0),
      Date_parse = read_instant, Number_toString = (\<lambda>q. [])\<rparr>"

definition metric_next_day :: DailyMetric where
  "metric_next_day =
     \<lparr>m_organizationId = ''org1'', m_date = 1705363200000, m_revenue = 700,
      m_activeUsers = 800, m_newUsers = 5, m_totalCustomers = 30, m_newCustomers = 1,
      m_churnedCustomers = 0, m_conversionRate = 2\<rparr>"

definition metric_noon :: DailyMetric where
  "metric_noon =
     \<lparr>m_organizationId = ''org1'', m_date = 1705320000000, m_revenue = 300,
      m_activeUsers = 700, m_newUsers = 5, m_totalCustomers = 30, m_newCustomers = 1,
      m_churnedCustomers = 0, m_conversionRate = 2\<rparr>"

section \<open>Notions of the specification for the CSV text\<close>







section \<open>Notions of the specification for reading the CSV text back\<close>


text \<open>A text with no comma and no line break, and a row whose text fields are such.\<close>

definition plain :: "string \<Rightarrow> bool" where
  "plain s = (CHR '','' \<notin> set s \<and> newline \<notin> set s)"








section \<open>Properties of getKPIData\<close>

subsection \<open>The aggregates are the figures of the specification\<close>

lemma current_aggregate:
  "dailyMetric_aggregate store org \<lparr>gte = Some (subDays today 30), lte = Some today, lt = None\<rparr>
     = aggregate_rows (currentWindow store today org)"
proof -
  have "dailyMetric_where org \<lparr>gte = Some (subDays today 30), lte = Some today, lt = None\<rparr>
      = (\<lambda>m. m_organizationId m = org \<and> today - 30 * 86400000 \<le> m_date m \<and> m_date m \<le> today)"
    by (simp add: fun_eq_iff dailyMetric_where_def date_matches_def subDays_def msPerDay_def)
  then show ?thesis
    by (simp add: dailyMetric_aggregate_def currentWindow_def)
qed

lemma previous_aggregate:
  "dailyMetric_aggregate store org
     \<lparr>gte = Some (subDays today 60), lte = None, lt = Some (subDays today 30)\<rparr>
     = aggregate_rows (previousWindow store today org)"
proof -
  have "dailyMetric_where org
          \<lparr>gte = Some (subDays today 60), lte = None, lt = Some (subDays today 30)\<rparr>
      = (\<lambda>m. m_organizationId m = org \<and> today - 60 * 86400000 \<le> m_date m \<and>
              m_date m < today - 30 * 86400000)"
    by (simp add: fun_eq_iff dailyMetric_where_def date_matches_def subDays_def msPerDay_def)
  then show ?thesis
    by (simp add: dailyMetric_aggregate_def previousWindow_def)
qed

lemma revenue_of_aggregate:
  "js_or (Some (Number (sum_revenue (aggregate_rows rows)))) (Fin 0) = Fin (revenueOf rows)"
  by (simp add: aggregate_rows_def revenueOf_def)

lemma activeUsers_of_aggregate:
  "js_div (js_or (map_option int_number (sum_activeUsers (aggregate_rows rows))) (Fin 0)) (Fin 30)
     = Fin (averageActiveUsersOf rows)"
  by (simp add: aggregate_rows_def averageActiveUsersOf_def int_number_def)

lemma conversion_of_aggregate:
  "js_or (Some (Number (avg_conversionRate (aggregate_rows rows)))) (Fin 0) = Fin (conversionOf rows)"
  by (simp add: aggregate_rows_def conversionOf_def)

lemma churnRate_of_aggregate:
  "js_mul (js_div (js_or (map_option int_number (sum_churnedCustomers (aggregate_rows rows))) (Fin 0))
       (js_div (js_or (map_option int_number (sum_totalCustomers (aggregate_rows rows))) (Fin 1)) (Fin 30)))
     (Fin 100) = Fin (churnRateOf rows)"
  by (simp add: aggregate_rows_def churnRateOf_def int_number_def Let_def)

lemma change_of_finite:
  "(if js_gt (Fin p) (Fin 0) then js_mul (js_div (js_sub (Fin c) (Fin p)) (Fin p)) (Fin 100) else Fin 0)
     = Fin (percentChange c p)"
  by (simp add: percentChange_def)

lemma getKPIData_eq:
  "getKPIData store today org =
     (let cur = currentWindow store today org; prev = previousWindow store today org in
      \<lparr>revenue = Fin (revenueOf cur),
       revenueChange = Fin (percentChange (revenueOf cur) (revenueOf prev)),
       activeUsers = Fin (of_int \<lfloor>averageActiveUsersOf cur + 1 / 2\<rfloor>),
       activeUsersChange = Fin (percentChange (averageActiveUsersOf cur) (averageActiveUsersOf prev)),
       conversionRate = Fin (conversionOf cur),
       conversionChange = Fin (percentChange (conversionOf cur) (conversionOf prev)),
       churnRate = Fin (churnRateOf cur),
       churnChange = Fin (percentChange (churnRateOf cur) (churnRateOf prev))\<rparr>)"
  unfolding getKPIData_def Let_def current_aggregate previous_aggregate
    revenue_of_aggregate activeUsers_of_aggregate conversion_of_aggregate
    churnRate_of_aggregate change_of_finite
  by simp

lemma floor_half: "\<lfloor>(1::rat) / 2\<rfloor> = 0"
  by (simp add: floor_eq_iff)

lemma window_of_example:
  "currentWindow [metric_example] 1705312800000 ''org1'' = [metric_example]"
  "previousWindow [metric_example] 1705312800000 ''org1'' = []"
  by (simp_all add: currentWindow_def previousWindow_def metric_example_def)

text \<open>
  Claim C1. The churn rate that \<open>getKPIData\<close> returns is the churned customers of the
  current window divided by a thirtieth of its customer total, times 100, where a
  customer total of zero (also over no rows) is replaced by 1. With a total of 30 and 3
  churned the churn rate is exactly 300.
\<close>

theorem getKPIData_churnRate:
  "churnRate (getKPIData store today org) =
     (let rows = currentWindow store today org;
          currentChurned = sum_list (map m_churnedCustomers rows);
          total = sum_list (map m_totalCustomers rows);
          currentTotalCustomers = (if total = 0 then 1 else total)
      in Fin (of_int currentChurned / (of_int currentTotalCustomers / 30) * 100))
   \<and> (sum_list (map m_totalCustomers (currentWindow store today org)) = 30 \<and>
      sum_list (map m_churnedCustomers (currentWindow store today org)) = 3
      \<longrightarrow> churnRate (getKPIData store today org) = Fin 300)"
  by (simp add: getKPIData_eq churnRateOf_def Let_def)

theorem getKPIData_churnRate_witness:
  "sum_list (map m_totalCustomers (currentWindow [metric_example] 1705312800000 ''org1'')) = 30 \<and>
   sum_list (map m_churnedCustomers (currentWindow [metric_example] 1705312800000 ''org1'')) = 3 \<and>
   churnRate (getKPIData [metric_example] 1705312800000 ''org1'') = Fin 300"
proof -
  have h: "sum_list (map m_totalCustomers (currentWindow [metric_example] 1705312800000 ''org1'')) = 30 \<and>
      sum_list (map m_churnedCustomers (currentWindow [metric_example] 1705312800000 ''org1'')) = 3"
    by (simp add: window_of_example) (simp add: metric_example_def)
  from getKPIData_churnRate [of "[metric_example]" 1705312800000 "''org1''"] h
  show ?thesis by blast
qed

text \<open>
  Claim C2. Each change field of \<open>getKPIData\<close> is 0 whenever the figure of the previous
  window that it would divide by is at most 0, and is \<open>(current - previous) / previous * 100\<close>
  only when that figure is positive; so every change field is a finite number, never
  \<open>Infinity\<close> or \<open>NaN\<close>.
\<close>

theorem getKPIData_change_guard:
  "(let k = getKPIData store today org;
        cur = currentWindow store today org;
        prev = previousWindow store today org
    in (revenueOf prev \<le> 0 \<longrightarrow> revenueChange k = Fin 0) \<and>
       (averageActiveUsersOf prev \<le> 0 \<longrightarrow> activeUsersChange k = Fin 0) \<and>
       (conversionOf prev \<le> 0 \<longrightarrow> conversionChange k = Fin 0) \<and>
       (churnRateOf prev \<le> 0 \<longrightarrow> churnChange k = Fin 0) \<and>
       (0 < revenueOf prev \<longrightarrow>
          revenueChange k = Fin ((revenueOf cur - revenueOf prev) / revenueOf prev * 100)) \<and>
       (0 < averageActiveUsersOf prev \<longrightarrow>
          activeUsersChange k =
            Fin ((averageActiveUsersOf cur - averageActiveUsersOf prev) / averageActiveUsersOf prev * 100)) \<and>
       (0 < conversionOf prev \<longrightarrow>
          conversionChange k = Fin ((conversionOf cur - conversionOf prev) / conversionOf prev * 100)) \<and>
       (0 < churnRateOf prev \<longrightarrow>
          churnChange k = Fin ((churnRateOf cur - churnRateOf prev) / churnRateOf prev * 100)) \<and>
       isFinite (revenueChange k) \<and> isFinite (activeUsersChange k) \<and>
       isFinite (conversionChange k) \<and> isFinite (churnChange k))"
  by (simp add: getKPIData_eq Let_def percentChange_def)

theorem getKPIData_change_guard_witness:
  "revenueOf (previousWindow [metric_example] 1705312800000 ''org1'') \<le> 0 \<and>
   0 < revenueOf (currentWindow [metric_example] 1705312800000 ''org1'') \<and>
   revenueChange (getKPIData [metric_example] 1705312800000 ''org1'') = Fin 0 \<and>
   isFinite (revenueChange (getKPIData [metric_example] 1705312800000 ''org1''))"
proof -
  have h: "revenueOf (previousWindow [metric_example] 1705312800000 ''org1'') \<le> 0"
    by (simp add: window_of_example revenueOf_def)
  have c: "0 < revenueOf (currentWindow [metric_example] 1705312800000 ''org1'')"
    by (simp add: window_of_example revenueOf_def) (simp add: metric_example_def)
  from getKPIData_change_guard [of "[metric_example]" 1705312800000 "''org1''"] h c
  show ?thesis unfolding Let_def by blast
qed

text \<open>
  Claim C3. For an organization with no \<open>DailyMetric\<close> row in the current window and
  none in the previous window, \<open>getKPIData\<close> returns 0 for the four metrics and 0 for
  the four changes.
\<close>

theorem getKPIData_no_rows:
  assumes "currentWindow store today org = []"
    and "previousWindow store today org = []"
  shows "getKPIData store today org =
     \<lparr>revenue = Fin 0, revenueChange = Fin 0, activeUsers = Fin 0, activeUsersChange = Fin 0,
      conversionRate = Fin 0, conversionChange = Fin 0, churnRate = Fin 0, churnChange = Fin 0\<rparr>"
  using assms
  by (simp add: getKPIData_eq Let_def percentChange_def revenueOf_def averageActiveUsersOf_def
      conversionOf_def churnRateOf_def floor_half)

theorem getKPIData_no_rows_witness:
  "currentWindow [metric_example] 1705312800000 ''org2'' = [] \<and>
   previousWindow [metric_example] 1705312800000 ''org2'' = [] \<and>
   getKPIData [metric_example] 1705312800000 ''org2'' =
     \<lparr>revenue = Fin 0, revenueChange = Fin 0, activeUsers = Fin 0, activeUsersChange = Fin 0,
      conversionRate = Fin 0, conversionChange = Fin 0, churnRate = Fin 0, churnChange = Fin 0\<rparr>"
proof -
  have c: "currentWindow [metric_example] 1705312800000 ''org2'' = []"
    by (simp add: currentWindow_def metric_example_def)
  have p: "previousWindow [metric_example] 1705312800000 ''org2'' = []"
    by (simp add: previousWindow_def metric_example_def)
  from getKPIData_no_rows [OF c p] c p show ?thesis by simp
qed

section \<open>Properties of the transaction queries\<close>

lemma dashboard_where_all:
  "dashboard_where (filters\<lparr>df_status := Some ''all''\<rparr>) = dashboard_where (filters\<lparr>df_status := None\<rparr>)"
  by (simp add: dashboard_where_def)

lemma report_where_status_all:
  "report_where env (rf\<lparr>rf_status := Some ''all''\<rparr>) = report_where env (rf\<lparr>rf_status := None\<rparr>)"
  by (auto simp: report_where_def split: sum.splits)

lemma report_where_type_all:
  "report_where env (rf\<lparr>rf_type := Some ''all''\<rparr>) = report_where env (rf\<lparr>rf_type := None\<rparr>)"
  by (auto simp: report_where_def split: sum.splits)

text \<open>
  Claim C4. With the other filters and the store unchanged, \<open>getTransactions\<close> with
  status \<open>"all"\<close> returns what it returns with the status left out; likewise
  \<open>getReportData\<close> for its \<open>status\<close> and for its \<open>type\<close>.
\<close>

theorem all_means_omitted:
  "getTransactions env store (filters\<lparr>df_status := Some ''all''\<rparr>) =
     getTransactions env store (filters\<lparr>df_status := None\<rparr>) \<and>
   getReportData env store (rf\<lparr>rf_status := Some ''all''\<rparr>) =
     getReportData env store (rf\<lparr>rf_status := None\<rparr>) \<and>
   getReportData env store (rf\<lparr>rf_type := Some ''all''\<rparr>) =
     getReportData env store (rf\<lparr>rf_type := None\<rparr>)"
  by (simp add: getTransactions_def getReportData_def dashboard_where_all
      report_where_status_all report_where_type_all)

lemma foldl_js_add:
  "foldl (\<lambda>sum t. js_add sum (Fin (t_amount t))) (Fin a) xs
     = Fin (a + sum_list (map t_amount xs))"
  by (induction xs arbitrary: a) (simp_all add: algebra_simps)

lemma status_name_inj: "status_name a = status_name b \<longleftrightarrow> a = b"
  by (cases a; cases b; simp)

lemma status_count_partition:
  "length (filter (\<lambda>t. t_status t = COMPLETED) xs) + length (filter (\<lambda>t. t_status t = PENDING) xs) +
   length (filter (\<lambda>t. t_status t = FAILED) xs) + length (filter (\<lambda>t. t_status t = REFUNDED) xs)
     = length xs"
proof (induction xs)
  case Nil
  show ?case by simp
next
  case (Cons t ts)
  then show ?case by (cases "t_status t") simp_all
qed

lemma status_name_eq [simp]:
  "status_name s = ''COMPLETED'' \<longleftrightarrow> s = COMPLETED"
  "status_name s = ''PENDING'' \<longleftrightarrow> s = PENDING"
  "status_name s = ''FAILED'' \<longleftrightarrow> s = FAILED"
  "status_name s = ''REFUNDED'' \<longleftrightarrow> s = REFUNDED"
  by (cases s; simp)+

lemma report_filter_status:
  "filter (\<lambda>x. r_status x = status_name s) (map toReportTransaction rows)
     = map toReportTransaction (filter (\<lambda>t. t_status t = s) rows)"
  by (induction rows) (simp_all add: toReportTransaction_def status_name_inj)

lemma getReportData_rows:
  assumes "getReportData env store filters = Inr r"
  obtains wh rows where "report_where env filters = Inr wh"
    and "where_valid wh"
    and "rows = orderBy_createdAt_desc env None None (filter (transaction_where wh) store)"
    and "rd_transactions r = map toReportTransaction rows"
    and "rd_summary r = report_summary rows"
  using assms
  by (auto simp: getReportData_def transaction_findMany_def Let_def
      split: sum.splits if_splits)

text \<open>
  Claim C6. In every result of \<open>getReportData\<close>, \<open>totalTransactions\<close> is the number of
  rows returned, \<open>totalRevenue\<close> is the sum of the amounts of the rows with status
  COMPLETED, each of the four counts is the number of rows with its status, and the four
  counts add up to \<open>totalTransactions\<close> (a status is one of the four values of the enum).
\<close>

theorem report_summary_counts:
  assumes "getReportData env store filters = Inr r"
  shows "totalTransactions (rd_summary r) = length (rd_transactions r) \<and>
    list_all (\<lambda>x. isFinite (r_amount x)) (rd_transactions r) \<and>
    totalRevenue (rd_summary r) =
      Fin (sum_list (map (\<lambda>x. finite_value (r_amount x))
             (filter (\<lambda>x. r_status x = ''COMPLETED'') (rd_transactions r)))) \<and>
    completedCount (rd_summary r) = length (filter (\<lambda>x. r_status x = ''COMPLETED'') (rd_transactions r)) \<and>
    pendingCount (rd_summary r) = length (filter (\<lambda>x. r_status x = ''PENDING'') (rd_transactions r)) \<and>
    failedCount (rd_summary r) = length (filter (\<lambda>x. r_status x = ''FAILED'') (rd_transactions r)) \<and>
    refundedCount (rd_summary r) = length (filter (\<lambda>x. r_status x = ''REFUNDED'') (rd_transactions r)) \<and>
    completedCount (rd_summary r) + pendingCount (rd_summary r) + failedCount (rd_summary r) +
      refundedCount (rd_summary r) = totalTransactions (rd_summary r)"
proof -
  from assms obtain wh rows where
    tr: "rd_transactions r = map toReportTransaction rows" and
    su: "rd_summary r = report_summary rows"
    by (rule getReportData_rows)
  have f: "\<And>s. filter (\<lambda>x. r_status x = status_name s) (rd_transactions r)
      = map toReportTransaction (filter (\<lambda>t. t_status t = s) rows)"
    by (simp add: tr report_filter_status)
  have fc: "filter (\<lambda>x. r_status x = ''COMPLETED'') (rd_transactions r)
      = map toReportTransaction (filter (\<lambda>t. t_status t = COMPLETED) rows)"
    using f [of COMPLETED] by simp
  have fp: "filter (\<lambda>x. r_status x = ''PENDING'') (rd_transactions r)
      = map toReportTransaction (filter (\<lambda>t. t_status t = PENDING) rows)"
    using f [of PENDING] by simp
  have ff: "filter (\<lambda>x. r_status x = ''FAILED'') (rd_transactions r)
      = map toReportTransaction (filter (\<lambda>t. t_status t = FAILED) rows)"
    using f [of FAILED] by simp
  have fr: "filter (\<lambda>x. r_status x = ''REFUNDED'') (rd_transactions r)
      = map toReportTransaction (filter (\<lambda>t. t_status t = REFUNDED) rows)"
    using f [of REFUNDED] by simp
  have amounts: "\<And>ts. map (\<lambda>x. finite_value (r_amount x)) (map toReportTransaction ts) = map t_amount ts"
    by (simp add: toReportTransaction_def)
  have 1: "totalTransactions (rd_summary r) = length (rd_transactions r)"
    by (simp add: su tr report_summary_def)
  have 2: "list_all (\<lambda>x. isFinite (r_amount x)) (rd_transactions r)"
    by (simp add: tr list_all_iff toReportTransaction_def)
  have 3: "totalRevenue (rd_summary r) =
      Fin (sum_list (map (\<lambda>x. finite_value (r_amount x))
             (filter (\<lambda>x. r_status x = ''COMPLETED'') (rd_transactions r))))"
    unfolding fc amounts using foldl_js_add [of 0] by (simp add: su report_summary_def)
  have 4: "completedCount (rd_summary r) = length (filter (\<lambda>x. r_status x = ''COMPLETED'') (rd_transactions r))"
    unfolding fc by (simp add: su report_summary_def)
  have 5: "pendingCount (rd_summary r) = length (filter (\<lambda>x. r_status x = ''PENDING'') (rd_transactions r))"
    unfolding fp by (simp add: su report_summary_def)
  have 6: "failedCount (rd_summary r) = length (filter (\<lambda>x. r_status x = ''FAILED'') (rd_transactions r))"
    unfolding ff by (simp add: su report_summary_def)
  have 7: "refundedCount (rd_summary r) = length (filter (\<lambda>x. r_status x = ''REFUNDED'') (rd_transactions r))"
    unfolding fr by (simp add: su report_summary_def)
  have 8: "completedCount (rd_summary r) + pendingCount (rd_summary r) + failedCount (rd_summary r) +
      refundedCount (rd_summary r) = totalTransactions (rd_summary r)"
    using status_count_partition [of rows] by (simp add: su report_summary_def)
  from 1 2 3 4 5 6 7 8 show ?thesis by blast
qed

lemma sorted_desc_orderBy:
  "sorted_wrt (\<lambda>a b. t_createdAt b \<le> t_createdAt a) (orderBy_createdAt_desc env skip tk rows)"
proof -
  have "sorted (map (\<lambda>t. - t_createdAt t) (orderBy_createdAt_desc env skip tk rows))"
    unfolding orderBy_createdAt_desc_def by (rule sorted_sort_key)
  then show ?thesis
    by (simp add: sorted_map sorted_wrt_iff_nth_less)
qed

text \<open>
  Claim C10. The transactions that \<open>getReportData\<close> returns are the projections of
  rows in falling order of \<open>createdAt\<close>, the most recent first.
\<close>

theorem report_order:
  assumes "getReportData env store filters = Inr r"
  shows "\<exists>rows. rd_transactions r = map toReportTransaction rows \<and>
           sorted_wrt (\<lambda>a b. t_createdAt b \<le> t_createdAt a) rows \<and>
           map r_createdAt (rd_transactions r) = map (\<lambda>t. toISOString (t_createdAt t)) rows"
proof -
  from assms obtain wh rows where
    rows: "rows = orderBy_createdAt_desc env None None (filter (transaction_where wh) store)" and
    tr: "rd_transactions r = map toReportTransaction rows"
    by (rule getReportData_rows)
  have "sorted_wrt (\<lambda>a b. t_createdAt b \<le> t_createdAt a) rows"
    unfolding rows by (rule sorted_desc_orderBy)
  moreover have "map r_createdAt (rd_transactions r) = map (\<lambda>t. toISOString (t_createdAt t)) rows"
    by (simp add: tr toReportTransaction_def)
  ultimately show ?thesis using tr by blast
qed





lemma length_orderBy: "length (orderBy_createdAt_desc env skip tk rows) = length rows"
  by (simp add: orderBy_createdAt_desc_def)






subsection \<open>The example store\<close>


lemma example_rows:
  "orderBy_createdAt_desc env_example skip tk (filter (transaction_where
      \<lparr>w_organizationId = ''org1'', w_createdAt = None, w_status = None, w_type = None,
       w_customer_contains = None\<rparr>) store_example) = [tx2, tx1, tx3]"
proof -
  have "filter (transaction_where
      \<lparr>w_organizationId = ''org1'', w_createdAt = None, w_status = None, w_type = None,
       w_customer_contains = None\<rparr>) store_example = [tx1, tx2, tx3]"
    by (simp add: store_example_def transaction_where_def tx1_def tx2_def tx3_def)
  moreover have "orderBy_createdAt_desc env_example skip tk [tx1, tx2, tx3] = [tx2, tx1, tx3]"
    by (simp add: orderBy_createdAt_desc_def env_example_def tx1_def tx2_def tx3_def)
  ultimately show ?thesis by simp
qed


lemma example_report_where:
  "report_where env_example report_filters_example =
     Inr \<lparr>w_organizationId = ''org1'', w_createdAt = None, w_status = None, w_type = None,
      w_customer_contains = None\<rparr>"
  by (simp add: report_where_def report_filters_example_def date_bound_def)

lemma example_where_valid:
  "where_valid \<lparr>w_organizationId = ''org1'', w_createdAt = None, w_status = None, w_type = None,
      w_customer_contains = None\<rparr>"
  by (simp add: where_valid_def)

lemma example_report:
  "getReportData env_example store_example report_filters_example =
     Inr \<lparr>rd_transactions = map toReportTransaction [tx2, tx1, tx3],
          rd_summary = report_summary [tx2, tx1, tx3]\<rparr>"
  by (simp add: getReportData_def example_report_where transaction_findMany_def
      example_where_valid example_rows)


theorem report_summary_counts_witness:
  "getReportData env_example store_example report_filters_example =
     Inr \<lparr>rd_transactions = map toReportTransaction [tx2, tx1, tx3],
          rd_summary = report_summary [tx2, tx1, tx3]\<rparr> \<and>
   totalTransactions (report_summary [tx2, tx1, tx3]) = 3 \<and>
   totalRevenue (report_summary [tx2, tx1, tx3]) = Fin (2509 / 2) \<and>
   completedCount (report_summary [tx2, tx1, tx3]) = 2 \<and>
   pendingCount (report_summary [tx2, tx1, tx3]) = 1 \<and>
   failedCount (report_summary [tx2, tx1, tx3]) = 0 \<and>
   refundedCount (report_summary [tx2, tx1, tx3]) = 0"
proof -
  have h: "getReportData env_example store_example report_filters_example =
     Inr \<lparr>rd_transactions = map toReportTransaction [tx2, tx1, tx3],
          rd_summary = report_summary [tx2, tx1, tx3]\<rparr>"
    by (rule example_report)
  have st: "map r_status (map toReportTransaction [tx2, tx1, tx3]) = [''PENDING'', ''COMPLETED'', ''COMPLETED'']"
    by (simp add: toReportTransaction_def tx1_def tx2_def tx3_def)
  have am: "map r_amount (map toReportTransaction [tx2, tx1, tx3]) = [Fin 80, Fin (2469 / 2), Fin 20]"
    by (simp add: toReportTransaction_def tx1_def tx2_def tx3_def)
  from st am have rows: "\<exists>a b c. map toReportTransaction [tx2, tx1, tx3] = [a, b, c] \<and>
      r_status a = ''PENDING'' \<and> r_status b = ''COMPLETED'' \<and> r_status c = ''COMPLETED'' \<and>
      r_amount a = Fin 80 \<and> r_amount b = Fin (2469 / 2) \<and> r_amount c = Fin 20"
    by simp
  from report_summary_counts [OF h] rows h show ?thesis
    by auto
qed


theorem report_order_witness:
  "getReportData env_example store_example report_filters_example =
     Inr \<lparr>rd_transactions = map toReportTransaction [tx2, tx1, tx3],
          rd_summary = report_summary [tx2, tx1, tx3]\<rparr> \<and>
   map t_createdAt [tx2, tx1, tx3] = [1705399200000, 1705312800000, 1705226400000] \<and>
   (\<exists>rows. map toReportTransaction [tx2, tx1, tx3] = map toReportTransaction rows \<and>
      sorted_wrt (\<lambda>a b. t_createdAt b \<le> t_createdAt a) rows \<and>
      map r_createdAt (map toReportTransaction [tx2, tx1, tx3]) =
        map (\<lambda>t. toISOString (t_createdAt t)) rows)"
proof -
  have h: "getReportData env_example store_example report_filters_example =
     Inr \<lparr>rd_transactions = map toReportTransaction [tx2, tx1, tx3],
          rd_summary = report_summary [tx2, tx1, tx3]\<rparr>"
    by (rule example_report)
  have c: "map t_createdAt [tx2, tx1, tx3] = [1705399200000, 1705312800000, 1705226400000]"
    by (simp add: tx1_def tx2_def tx3_def)
  from report_order [OF h] h c show ?thesis
    by simp
qed


subsection \<open>Rows with the same createdAt\<close>






section \<open>Properties of getChartData\<close>

lemma split_at_first:
  assumes "c \<notin> set xs"
  shows "split c (xs @ c # ys) = xs # split c ys"
  using assms by (induction xs) (auto split: list.splits)

lemma digit_char_not_T: "digit_char d \<noteq> CHR ''T''" "CHR ''T'' \<noteq> digit_char d"
  by (simp_all add: digit_char_def)

lemma pad_no_T: "CHR ''T'' \<notin> set (pad w n)"
  by (induction w arbitrary: n) (simp_all add: digit_char_not_T)

lemma year_string_no_T: "CHR ''T'' \<notin> set (year_string y)"
  by (simp add: year_string_def pad_no_T)

lemma day_string_no_T: "CHR ''T'' \<notin> set (day_string day)"
  by (simp add: day_string_def Let_def pad_no_T year_string_no_T split: prod.splits)

lemma toISOString_day: "\<exists>rest. toISOString tv = day_string (dayOf tv) @ CHR ''T'' # rest"
  by (simp add: toISOString_def day_string_def dayOf_def Let_def split: prod.splits)

lemma date_part: "hd (split CHR ''T'' (toISOString tv)) = day_string (dayOf tv)"
proof -
  obtain rest where "toISOString tv = day_string (dayOf tv) @ CHR ''T'' # rest"
    using toISOString_day by blast
  then show ?thesis
    by (simp add: split_at_first [OF day_string_no_T])
qed

lemma dayOf_mono: "a \<le> b \<Longrightarrow> dayOf a \<le> dayOf b"
  by (simp add: dayOf_def msPerDay_def zdiv_mono1)

lemma dayOf_startOfDay: "dayOf (startOfDay z d + z) = dayOf (d + z)"
  by (simp add: dayOf_def startOfDay_def msPerDay_def)

lemma dayOf_endOfDay: "dayOf (endOfDay z d + z) = dayOf (d + z)"
  by (simp add: dayOf_def endOfDay_def msPerDay_def)

lemma dayOf_subDays: "dayOf (subDays d n + z) = dayOf (d + z) - n"
proof -
  have "subDays d n + z = d + z + (- n) * msPerDay"
    by (simp add: subDays_def)
  then show ?thesis
    by (simp add: dayOf_def msPerDay_def)
qed

lemma dayOf_shift: "a \<le> b \<Longrightarrow> dayOf (a + z) \<le> dayOf (b + z)"
  by (rule dayOf_mono) simp

lemma sorted_days:
  "sorted (map m_date rows) \<Longrightarrow> sorted (map (\<lambda>m. dayOf (m_date m)) rows)"
  by (induction rows) (auto simp: dayOf_mono)

lemma sorted_strict_days:
  assumes "sorted (map m_date rows)"
    and "distinct (map (\<lambda>m. dayOf (m_date m)) rows)"
  shows "sorted_wrt (<) (map (\<lambda>m. dayOf (m_date m)) rows)"
  using sorted_days [OF assms(1)] assms(2) by (simp add: strict_sorted_iff)

lemma distinct_days_of_org:
  assumes "one_row_per_day store"
  shows "distinct (map (\<lambda>m. dayOf (m_date m)) (filter (dailyMetric_where org f) store))"
proof -
  let ?rows = "filter (dailyMetric_where org f) store"
  let ?g = "\<lambda>m. (m_organizationId m, dayOf (m_date m))"
  have "distinct (map ?g ?rows)"
    using assms unfolding one_row_per_day_def by (rule distinct_map_filter)
  then have d: "distinct ?rows" and i: "inj_on ?g (set ?rows)"
    by (simp_all add: distinct_map)
  have "inj_on (\<lambda>m. dayOf (m_date m)) (set ?rows)"
  proof (rule inj_onI)
    fix a b
    assume a: "a \<in> set ?rows" and b: "b \<in> set ?rows"
      and e: "dayOf (m_date a) = dayOf (m_date b)"
    from a b have "m_organizationId a = org" "m_organizationId b = org"
      by (simp_all add: dailyMetric_where_def)
    with e have "?g a = ?g b" by simp
    with i a b show "a = b" by (simp add: inj_on_def)
  qed
  with d show ?thesis
    by (simp add: distinct_map)
qed

lemma getChartData_dates:
  "map cp_date (getChartData env store now org days_arg) =
     map (\<lambda>t. day_string (dayOf t)) (map m_date
       (dailyMetric_findMany store org
          \<lparr>gte = Some (startOfDay (zone env)
                   (subDays now (case days_arg of None \<Rightarrow> 30 | Some n \<Rightarrow> n))),
           lte = Some (endOfDay (zone env) now), lt = None\<rparr>))"
  by (simp add: getChartData_def Let_def date_part comp_def)

text \<open>
  Claim C9, corrected in two places. The date string of an element is the UTC day of
  its row, while the bounds of the query are local days of the zone of the process, and
  rows of one day are not merged. So: the dates that \<open>getChartData\<close> returns are the
  calendar-day strings of the UTC days of instants in rising order, the days in rising
  order that need not be strict; the local day of every instant lies between the local
  day of \<open>today - days\<close> and the local day of today; in a process in UTC these are the
  days of the date strings; and with at most one row for an organization and a UTC day
  in the store, the order of the days is strict.
\<close>

theorem chart_series:
  "\<exists>ts. map cp_date (getChartData env store now org days_arg) =
          map (\<lambda>t. day_string (dayOf t)) ts \<and>
        sorted ts \<and> sorted (map dayOf ts) \<and>
        (\<forall>t \<in> set ts.
           dayOf (now + zone env) - (case days_arg of None \<Rightarrow> 30 | Some n \<Rightarrow> n)
             \<le> dayOf (t + zone env) \<and>
           dayOf (t + zone env) \<le> dayOf (now + zone env)) \<and>
        (zone env = 0 \<longrightarrow>
           (\<forall>t \<in> set ts.
              dayOf now - (case days_arg of None \<Rightarrow> 30 | Some n \<Rightarrow> n) \<le> dayOf t \<and>
              dayOf t \<le> dayOf now)) \<and>
        (one_row_per_day store \<longrightarrow> sorted_wrt (<) (map dayOf ts))"
proof -
  let ?days = "case days_arg of None \<Rightarrow> 30 | Some n \<Rightarrow> n"
  let ?z = "zone env"
  let ?f = "\<lparr>gte = Some (startOfDay ?z (subDays now ?days)), lte = Some (endOfDay ?z now),
    lt = None\<rparr>"
  let ?rows = "dailyMetric_findMany store org ?f"
  let ?ts = "map m_date ?rows"
  have s: "sorted ?ts"
    by (simp add: dailyMetric_findMany_def)
  have 1: "sorted (map dayOf ?ts)"
    using sorted_days [OF s] by (simp add: comp_def)
  have 2: "\<forall>t \<in> set ?ts. dayOf (now + ?z) - ?days \<le> dayOf (t + ?z) \<and>
      dayOf (t + ?z) \<le> dayOf (now + ?z)"
  proof
    fix t assume "t \<in> set ?ts"
    then obtain m where m: "m \<in> set store" "dailyMetric_where org ?f m" and t: "t = m_date m"
      by (auto simp: dailyMetric_findMany_def)
    from m(2) have lo: "startOfDay ?z (subDays now ?days) \<le> t" and hi: "t \<le> endOfDay ?z now"
      by (simp_all add: dailyMetric_where_def date_matches_def t)
    from dayOf_shift [OF lo, of ?z] dayOf_shift [OF hi, of ?z]
    show "dayOf (now + ?z) - ?days \<le> dayOf (t + ?z) \<and> dayOf (t + ?z) \<le> dayOf (now + ?z)"
      by (simp add: dayOf_startOfDay dayOf_endOfDay dayOf_subDays)
  qed
  have 3: "zone env = 0 \<longrightarrow>
      (\<forall>t \<in> set ?ts. dayOf now - ?days \<le> dayOf t \<and> dayOf t \<le> dayOf now)"
  proof
    assume z: "zone env = 0"
    from 2 show "\<forall>t \<in> set ?ts. dayOf now - ?days \<le> dayOf t \<and> dayOf t \<le> dayOf now"
      unfolding z by simp
  qed
  have 4: "one_row_per_day store \<longrightarrow> sorted_wrt (<) (map dayOf ?ts)"
  proof
    assume u: "one_row_per_day store"
    have "mset (map (\<lambda>m. dayOf (m_date m)) ?rows)
        = mset (map (\<lambda>m. dayOf (m_date m)) (filter (dailyMetric_where org ?f) store))"
      by (simp add: dailyMetric_findMany_def)
    then have "distinct (map (\<lambda>m. dayOf (m_date m)) ?rows)"
      using distinct_days_of_org [OF u, of org ?f] by (metis mset_eq_imp_distinct_iff)
    with s have "sorted_wrt (<) (map (\<lambda>m. dayOf (m_date m)) ?rows)"
      by (rule sorted_strict_days)
    then show "sorted_wrt (<) (map dayOf ?ts)"
      by (simp add: comp_def)
  qed
  from getChartData_dates [of env store now org days_arg] s 1 2 3 4 show ?thesis
    by blast
qed

lemma pad_numeral:
  "pad (numeral k) n = pad (pred_numeral k) (n div 10) @ [digit_char (n mod 10)]"
  by (metis numeral_eq_Suc pad.simps(2))

lemma civil_19737: "civilFromDays 19737 = (2024, 1, 15)"
  unfolding civilFromDays_def Let_def by simp

lemma civil_19736: "civilFromDays 19736 = (2024, 1, 14)"
  unfolding civilFromDays_def Let_def by simp

lemma day_string_examples:
  "day_string 19737 = ''2024-01-15''" "day_string 19736 = ''2024-01-14''"
  unfolding day_string_def civil_19737 civil_19736
  by (simp_all add: year_string_def pad_numeral digit_char_def)

lemma civil_19738: "civilFromDays 19738 = (2024, 1, 16)"
  unfolding civilFromDays_def Let_def by simp

lemma day_string_19738: "day_string 19738 = ''2024-01-16''"
  unfolding day_string_def civil_19738
  by (simp add: year_string_def pad_numeral digit_char_def)

lemma example_bounds:
  "startOfDay 0 (subDays 1705312800000 30) = 1702684800000"
  "endOfDay 0 1705312800000 = 1705363199999"
  "startOfDay (- 28800000) (subDays 1705312800000 30) = 1702713600000"
  "endOfDay (- 28800000) 1705312800000 = 1705391999999"
  by (simp_all add: startOfDay_def subDays_def endOfDay_def msPerDay_def)

lemma example_days:
  "dayOf 1705190400000 = 19736" "dayOf 1705276800000 = 19737" "dayOf 1705320000000 = 19737"
  "dayOf 1705312800000 = 19737" "dayOf 1705363200000 = 19738" "dayOf 1705284000000 = 19737"
  by (simp_all add: dayOf_def msPerDay_def)

lemma chart_store_rows:
  "dailyMetric_findMany chart_store ''org1''
     \<lparr>gte = Some 1702684800000, lte = Some 1705363199999, lt = None\<rparr> =
     [metric_example2, metric_example]"
proof -
  have "filter (dailyMetric_where ''org1''
      \<lparr>gte = Some 1702684800000, lte = Some 1705363199999, lt = None\<rparr>) chart_store
      = [metric_example, metric_example2]"
    by (simp add: chart_store_def dailyMetric_where_def date_matches_def metric_example_def
        metric_example2_def)
  moreover have "sort_key m_date [metric_example, metric_example2] = [metric_example2, metric_example]"
    by (simp add: metric_example_def metric_example2_def)
  ultimately show ?thesis
    unfolding dailyMetric_findMany_def by simp
qed

lemma chart_store_dates:
  "map cp_date (getChartData env_example chart_store 1705312800000 ''org1'' None) =
     [''2024-01-14'', ''2024-01-15'']"
proof -
  have z: "zone env_example = 0"
    by (simp add: env_example_def)
  have d: "m_date metric_example2 = 1705190400000" "m_date metric_example = 1705276800000"
    by (simp_all add: metric_example_def metric_example2_def)
  show ?thesis
    unfolding getChartData_dates z
    by (simp add: example_bounds chart_store_rows d example_days day_string_examples)
qed

theorem chart_series_witness:
  "one_row_per_day chart_store \<and> zone env_example = 0 \<and>
   map cp_date (getChartData env_example chart_store 1705312800000 ''org1'' None) =
     [''2024-01-14'', ''2024-01-15''] \<and>
   (\<exists>ts. map cp_date (getChartData env_example chart_store 1705312800000 ''org1'' None) =
          map (\<lambda>t. day_string (dayOf t)) ts \<and>
      sorted_wrt (<) (map dayOf ts) \<and>
      (\<forall>t \<in> set ts. dayOf 1705312800000 - 30 \<le> dayOf t \<and> dayOf t \<le> dayOf 1705312800000))"
proof -
  have u: "one_row_per_day chart_store"
    by (simp add: one_row_per_day_def chart_store_def metric_example_def metric_example2_def
        dayOf_def msPerDay_def)
  have z: "zone env_example = 0"
    by (simp add: env_example_def)
  obtain ts where
    e: "map cp_date (getChartData env_example chart_store 1705312800000 ''org1'' None) =
          map (\<lambda>t. day_string (dayOf t)) ts" and
    b: "zone env_example = 0 \<longrightarrow>
          (\<forall>t \<in> set ts. dayOf 1705312800000 - (case None of None \<Rightarrow> 30 | Some n \<Rightarrow> n) \<le> dayOf t \<and>
             dayOf t \<le> dayOf 1705312800000)" and
    c: "one_row_per_day chart_store \<longrightarrow> sorted_wrt (<) (map dayOf ts)"
    using chart_series [of env_example chart_store 1705312800000 "''org1''" None] by blast
  from b z have b': "\<forall>t \<in> set ts. dayOf 1705312800000 - 30 \<le> dayOf t \<and> dayOf t \<le> dayOf 1705312800000"
    by simp
  from c u have c': "sorted_wrt (<) (map dayOf ts)"
    by simp
  from e b' c'
  have "\<exists>ts. map cp_date (getChartData env_example chart_store 1705312800000 ''org1'' None) =
          map (\<lambda>t. day_string (dayOf t)) ts \<and>
      sorted_wrt (<) (map dayOf ts) \<and>
      (\<forall>t \<in> set ts. dayOf 1705312800000 - 30 \<le> dayOf t \<and> dayOf t \<le> dayOf 1705312800000)"
    by blast
  with u z chart_store_dates show ?thesis by blast
qed

lemma next_day_rows:
  "dailyMetric_findMany [metric_next_day] ''org1''
     \<lparr>gte = Some 1702713600000, lte = Some 1705391999999, lt = None\<rparr> = [metric_next_day]"
  by (simp add: dailyMetric_findMany_def dailyMetric_where_def date_matches_def
      metric_next_day_def)

lemma same_day_rows:
  "dailyMetric_findMany [metric_example, metric_noon] ''org1''
     \<lparr>gte = Some 1702684800000, lte = Some 1705363199999, lt = None\<rparr> =
     [metric_example, metric_noon]"
proof -
  have "filter (dailyMetric_where ''org1''
      \<lparr>gte = Some 1702684800000, lte = Some 1705363199999, lt = None\<rparr>)
      [metric_example, metric_noon] = [metric_example, metric_noon]"
    by (simp add: dailyMetric_where_def date_matches_def metric_example_def metric_noon_def)
  moreover have "sort_key m_date [metric_example, metric_noon] = [metric_example, metric_noon]"
    by (simp add: metric_example_def metric_noon_def)
  ultimately show ?thesis
    unfolding dailyMetric_findMany_def by simp
qed

text \<open>
  Claim C9 does not hold as stated. In a process eight hours behind UTC, at
  2024-01-15T10:00:00Z (02:00 on the 15th there) and for 30 days, the local day of today
  ends at 2024-01-16T07:59:59.999Z: the row dated 2024-01-16T00:00:00Z is returned, with
  the date \<open>2024-01-16\<close>, a day after today. And in a process in UTC two rows of one
  organization dated on the same day at different instants are both returned, with the
  same date: the order is not strict.
\<close>

theorem chart_series_counterexample:
  "map cp_date (getChartData env_behind [metric_next_day] 1705312800000 ''org1'' (Some 30)) =
     [''2024-01-16''] \<and>
   day_string (dayOf 1705312800000) = ''2024-01-15'' \<and>
   day_string (dayOf (1705312800000 + zone env_behind)) = ''2024-01-15'' \<and>
   m_date metric_example \<noteq> m_date metric_noon \<and>
   map cp_date (getChartData env_example [metric_example, metric_noon] 1705312800000 ''org1''
      (Some 30)) = [''2024-01-15'', ''2024-01-15'']"
proof -
  have zb: "zone env_behind = - 28800000" and ze: "zone env_example = 0"
    by (simp_all add: env_behind_def env_example_def)
  have d: "m_date metric_next_day = 1705363200000" "m_date metric_example = 1705276800000"
    "m_date metric_noon = 1705320000000"
    by (simp_all add: metric_next_day_def metric_example_def metric_noon_def)
  have 1: "map cp_date (getChartData env_behind [metric_next_day] 1705312800000 ''org1'' (Some 30)) =
     [''2024-01-16'']"
    unfolding getChartData_dates zb
    by (simp add: example_bounds next_day_rows d example_days day_string_19738)
  have 2: "map cp_date (getChartData env_example [metric_example, metric_noon] 1705312800000
      ''org1'' (Some 30)) = [''2024-01-15'', ''2024-01-15'']"
    unfolding getChartData_dates ze
    by (simp add: example_bounds same_day_rows d example_days day_string_examples)
  have 3: "day_string (dayOf 1705312800000) = ''2024-01-15''"
    "day_string (dayOf (1705312800000 + zone env_behind)) = ''2024-01-15''"
    unfolding zb by (simp_all add: example_days day_string_examples)
  have 4: "m_date metric_example \<noteq> m_date metric_noon"
    by (simp add: d)
  from 1 2 3 4 show ?thesis by simp
qed

section \<open>Properties of generateCSV\<close>























section \<open>Reading the CSV text back\<close>








lemma plain_marks: "plain ''-''" "plain ''+''" "plain ''.''" "plain '':''" "plain ''T''" "plain ''Z''"
  by (simp_all add: plain_def newline_def)







































end
